theory Spec2Isabelle
  imports Main "HOL-Library.Word"
begin

section \<open>Data model of the persistent-node manager\<close>

text \<open>
  The manager of \<^verbatim>\<open>PersistentNode\<close> is modelled sequentially: every method and every
  callback is a function from the manager's fields (and, where byte slices are allocated,
  the store of backing arrays) to the updated fields and the returned value.  The mutex
  \<^verbatim>\<open>lock\<close> is not modelled (each function runs atomically) and \<^verbatim>\<open>log.Printf\<close> is left
  out.  The coordination client is external: the field \<open>client\<close> records, oldest first,
  the calls the manager has issued against it, and whatever the client answers is a
  parameter of the function that receives the answer.
\<close>

type_synonym byte = "8 word"

text \<open>A Go byte slice: \<open>None\<close> is the nil slice, \<open>Some a\<close> refers to backing array \<open>a\<close>.\<close>

type_synonym slice = "nat option"

record heap =
  bufs :: "nat \<Rightarrow> byte list"
  nxt :: nat

datatype StateType = Latent | Started | Closed

text \<open>The create modes of the client library (its declaration is not part of the sources).\<close>

datatype CreateMode = PERSISTENT | PERSISTENT_SEQUENTIAL | EPHEMERAL | EPHEMERAL_SEQUENTIAL

datatype ConnectionState = CONNECTED | SUSPENDED | RECONNECTED | LOST | READ_ONLY

text \<open>
  Error values: the client's errors the code compares against, any other client error,
  and the errors made by \<^verbatim>\<open>fmt.Errorf\<close>.  A Go \<^verbatim>\<open>error\<close> is an \<open>error option\<close>, \<open>None\<close> being nil.
\<close>

datatype error = ErrNothing | ErrNodeExists | ErrNoAuth | ErrNoNode | ErrOther nat | Errorf string

datatype panic = NegativeWaitGroupCounter | NilPointerDereference

text \<open>Which of the manager's callbacks a background call was given.\<close>

datatype callback = BackgroundCallback | CheckExistsCallback | SetDataCallback

datatype background = Foreground | InBackground | InBackgroundWithCallback callback

text \<open>
  A call issued against the client, with the builder options the code chains:
  \<open>CreateCall parents mode bg path data\<close>, \<open>SetDataCall bg path data\<close>,
  \<open>CheckExistsCall usingWatcher bg path\<close>, \<open>DeleteCall deletingChildren bg path\<close>.
\<close>

datatype 'd call =
    AddListener
  | RemoveListener
  | CreateCall bool CreateMode background string 'd
  | SetDataCall background string 'd
  | CheckExistsCall bool background string
  | DeleteCall bool background string

record PersistentNode =
  client :: "slice call list"
  mode :: CreateMode
  useProtection :: bool
  basePath :: string
  data :: slice
  state :: StateType
  authFailure :: bool
  nodePath :: string
  wg :: int

text \<open>
  What a callback reads of a \<^verbatim>\<open>CuratorEvent\<close>; \<open>StatOwner\<close> is \<open>None\<close> for a nil \<^verbatim>\<open>Stat()\<close>.
  The event of an operation that succeeded carries a nil error, \<open>Err = None\<close>: the
  repository's own synchronous calls of the same client take a nil error for success.
  \<open>ErrNothing\<close> is one of the client's error values and is not nil.
\<close>

record CuratorEvent =
  Err :: "error option"
  Path :: string
  Name :: string
  StatOwner :: "int option"

section \<open>Byte slices\<close>

definition contents :: "heap \<Rightarrow> slice \<Rightarrow> byte list" where
  "contents h s = (case s of None \<Rightarrow> [] | Some a \<Rightarrow> bufs h a)"

text \<open>\<^verbatim>\<open>c := make([]byte, len(d)); copy(c, d)\<close>: a new backing array holding the bytes of \<open>d\<close>.\<close>

definition make_copy :: "heap \<Rightarrow> slice \<Rightarrow> heap \<times> slice" where
  "make_copy h d =
     (h\<lparr>bufs := (bufs h)(nxt h := contents h d), nxt := Suc (nxt h)\<rparr>, Some (nxt h))"

text \<open>
  A caller's \<^verbatim>\<open>s[i] = b\<close>; \<open>None\<close> is the index-out-of-range panic.  A slice a caller can
  hold refers to an array that has been allocated.
\<close>

definition store_byte :: "heap \<Rightarrow> slice \<Rightarrow> nat \<Rightarrow> byte \<Rightarrow> heap option" where
  "store_byte h s i b =
     (case s of
        None \<Rightarrow> None
      | Some a \<Rightarrow>
          if i < length (bufs h a) then Some (h\<lparr>bufs := (bufs h)(a := (bufs h a)[i := b])\<rparr>)
          else None)"

definition allocated :: "heap \<Rightarrow> slice \<Rightarrow> bool" where
  "allocated h s = (case s of None \<Rightarrow> True | Some a \<Rightarrow> a < nxt h)"

section \<open>The manager\<close>

definition NewPersistentNode ::
  "heap \<Rightarrow> slice call list \<Rightarrow> CreateMode \<Rightarrow> bool \<Rightarrow> string \<Rightarrow> slice \<Rightarrow> heap \<times> PersistentNode" where
  "NewPersistentNode h cl m protection bp initData =
     (let (h1, d) = make_copy h initData
      in (h1, \<lparr>client = cl, mode = m, useProtection = protection, basePath = bp, data = d,
                state = Latent, authFailure = False, nodePath = [], wg = 0 + 1\<rparr>))"

definition isActive :: "PersistentNode \<Rightarrow> bool" where
  "isActive p = (state p = Started)"

definition getCreateMode :: "PersistentNode \<Rightarrow> bool \<Rightarrow> CreateMode" where
  "getCreateMode p isPathSet =
     (if isPathSet then
        (case mode p of
           EPHEMERAL_SEQUENTIAL \<Rightarrow> EPHEMERAL
         | PERSISTENT_SEQUENTIAL \<Rightarrow> PERSISTENT
         | _ \<Rightarrow> mode p)
      else mode p)"

definition createNode :: "PersistentNode \<Rightarrow> PersistentNode" where
  "createNode p =
     (if \<not> isActive p then p
      else
        (let existingPath = nodePath p;
             createPath = (if 0 < length existingPath \<and> \<not> useProtection p
                           then existingPath else basePath p)
         in p\<lparr>client := client p @
              [CreateCall True (getCreateMode p (0 < length existingPath))
                 (InBackgroundWithCallback BackgroundCallback) createPath (data p)]\<rparr>))"

definition watchNode :: "PersistentNode \<Rightarrow> PersistentNode" where
  "watchNode p =
     (if \<not> isActive p then p
      else if 0 < length (nodePath p)
      then p\<lparr>client := client p @
             [CheckExistsCall True (InBackgroundWithCallback CheckExistsCallback) (nodePath p)]\<rparr>
      else p)"

text \<open>\<open>res\<close> is what the client's synchronous delete returns.\<close>

definition deleteNode :: "PersistentNode \<Rightarrow> error option \<Rightarrow> PersistentNode \<times> error option" where
  "deleteNode p res =
     (if 0 < length (nodePath p)
      then (p\<lparr>client := client p @ [DeleteCall True Foreground (nodePath p)]\<rparr>, res)
      else (p, None))"

definition Start :: "PersistentNode \<Rightarrow> PersistentNode \<times> error option" where
  "Start p =
     (if state p = Started then (p, Some (Errorf ''already started''))
      else
        (let p1 = p\<lparr>client := client p @ [AddListener]\<rparr>;
             p2 = createNode p1
         in (p2\<lparr>state := Started\<rparr>, None)))"

definition Close :: "PersistentNode \<Rightarrow> error option \<Rightarrow> PersistentNode \<times> error option" where
  "Close p res =
     (if state p \<noteq> Started then (p, Some (Errorf ''not started''))
      else
        (let p1 = p\<lparr>client := client p @ [RemoveListener]\<rparr>;
             (p2, err) = deleteNode p1 res
         in (case err of Some e \<Rightarrow> (p2, Some e) | None \<Rightarrow> (p2\<lparr>state := Closed\<rparr>, None))))"

definition ActualPath :: "PersistentNode \<Rightarrow> string" where
  "ActualPath p = nodePath p"

text \<open>\<open>res\<close> is what the client returns for the background set-data call.\<close>

definition SetData ::
  "heap \<Rightarrow> PersistentNode \<Rightarrow> slice \<Rightarrow> error option \<Rightarrow> heap \<times> PersistentNode \<times> error option" where
  "SetData h p d res =
     (if d = None \<or> length (contents h d) = 0 then (h, p, Some (Errorf ''data is empty''))
      else if length (nodePath p) = 0
      then (h, p, Some (Errorf ''initial create has not been processed''))
      else
        (let (h1, c) = make_copy h d;
             p1 = p\<lparr>data := c\<rparr>
         in if isActive p1 then
              (let p2 = p1\<lparr>client := client p1 @ [SetDataCall InBackground (nodePath p1) (data p1)]\<rparr>
               in (case res of Some e \<Rightarrow> (h1, p2, Some e) | None \<Rightarrow> (h1, p2, None)))
            else (h1, p1, None)))"

definition GetData :: "PersistentNode \<Rightarrow> slice" where
  "GetData p = data p"

definition IsAuthFailure :: "PersistentNode \<Rightarrow> bool" where
  "IsAuthFailure p = authFailure p"

text \<open>\<^verbatim>\<open>wg.Done()\<close>: the counter goes down by one, and a negative counter panics.\<close>

definition wg_Done :: "PersistentNode \<Rightarrow> panic + PersistentNode" where
  "wg_Done p = (if wg p - 1 < 0 then Inl NegativeWaitGroupCounter else Inr (p\<lparr>wg := wg p - 1\<rparr>))"

definition processBackgroundCallbackClosedState :: "PersistentNode \<Rightarrow> CuratorEvent \<Rightarrow> PersistentNode" where
  "processBackgroundCallbackClosedState p event =
     (let path = (if Err event = Some ErrNodeExists then Path event
                  else if Err event = Some ErrNothing then Name event
                  else [])
      in if 0 < length path
         then p\<lparr>client := client p @ [DeleteCall True InBackground path]\<rparr>
         else p)"

definition processBackgroundCallback :: "PersistentNode \<Rightarrow> CuratorEvent \<Rightarrow> panic + PersistentNode" where
  "processBackgroundCallback p event =
     (let (path, nodeExists, noAuth) =
            (if Err event = Some ErrNodeExists then (Path event, True, False)
             else if Err event = Some ErrNothing then (Name event, False, False)
             else if Err event = Some ErrNoAuth then ([], False, True)
             else ([], False, False))
      in if noAuth then Inr (p\<lparr>authFailure := True\<rparr>)
         else if 0 < length path then
           (let p1 = p\<lparr>authFailure := False\<rparr>;
                p2 = p1\<lparr>nodePath := path\<rparr>;
                p3 = watchNode p2
            in if nodeExists
               then Inr (p3\<lparr>client := client p3 @
                          [SetDataCall (InBackgroundWithCallback SetDataCallback) (nodePath p3) (data p3)]\<rparr>)
               else wg_Done p3)
         else Inr (createNode p))"

definition backgroundCallback :: "PersistentNode \<Rightarrow> CuratorEvent \<Rightarrow> panic + PersistentNode" where
  "backgroundCallback p ev =
     (if state p = Started then processBackgroundCallback p ev
      else Inr (processBackgroundCallbackClosedState p ev))"

definition connectionStateListener :: "PersistentNode \<Rightarrow> ConnectionState \<Rightarrow> PersistentNode" where
  "connectionStateListener p newState = (if newState = RECONNECTED then createNode p else p)"

text \<open>
  The watcher compares \<^verbatim>\<open>ev.Type.String()\<close> with \<^verbatim>\<open>curator.DELETE.String()\<close> and
  \<^verbatim>\<open>curator.SET_DATA.String()\<close>; the three strings come from the libraries and are
  parameters here.
\<close>

definition watcher :: "PersistentNode \<Rightarrow> string \<Rightarrow> string \<Rightarrow> string \<Rightarrow> PersistentNode" where
  "watcher p evType deleteName setDataName =
     (if evType = deleteName then createNode p
      else if evType = setDataName then watchNode p
      else p)"

text \<open>
  The existence-check callback.  When the error is not "no node" the code reads
  \<^verbatim>\<open>ev.Stat().EphemeralOwner\<close> (a nil \<^verbatim>\<open>Stat()\<close> panics) and only logs.
\<close>

definition checkExistsCallback :: "PersistentNode \<Rightarrow> CuratorEvent \<Rightarrow> panic + PersistentNode" where
  "checkExistsCallback p ev =
     (if Err ev = Some ErrNoNode then Inr (createNode p)
      else (case StatOwner ev of None \<Rightarrow> Inl NilPointerDereference | Some owner \<Rightarrow> Inr p))"

definition setDataCallback :: "PersistentNode \<Rightarrow> CuratorEvent \<Rightarrow> panic + PersistentNode" where
  "setDataCallback p ev = (if Err ev = Some ErrNothing then wg_Done p else Inr p)"

section \<open>The path utility layer\<close>

text \<open>
  \<^verbatim>\<open>ZooKeeperClient.CreatePersistentNode\<close>.  \<open>z\<close> is the log of calls issued against the
  client so far; \<open>marshalled\<close> is what \<^verbatim>\<open>json.Marshal(obj)\<close> returns, \<open>created\<close> what the
  synchronous create returns (path and error) and \<open>watched\<close> what the check-exists call
  returns.  The first component of the result is the returned \<^verbatim>\<open>interface{}\<close>, \<open>None\<close>
  being nil.  The watcher handed to the check-exists call runs later, on the client's
  thread, and is not part of this function's result.
\<close>

definition CreatePersistentNode ::
  "'b call list \<Rightarrow> string \<Rightarrow> error + 'b \<Rightarrow> string \<times> error option \<Rightarrow> error option
     \<Rightarrow> 'b call list \<times> string option \<times> error option" where
  "CreatePersistentNode z path marshalled created watched =
     (case marshalled of
        Inl err \<Rightarrow> (z, None, Some err)
      | Inr b \<Rightarrow>
          (let z1 = z @ [CreateCall True EPHEMERAL Foreground path b];
               (p, err) = created
           in if err \<noteq> err then (z1, None, err)
              else
                (let z2 = z1 @ [CheckExistsCall True Foreground p]
                 in (case watched of Some e \<Rightarrow> (z2, None, Some e) | None \<Rightarrow> (z2, None, None)))))"

section \<open>Concrete managers and events used in the examples\<close>

text \<open>
  A store holding the caller's buffer \<^verbatim>\<open>"host-a"\<close> at address 0, and the manager the spec's
  scenario constructs from it, before and after \<^verbatim>\<open>Start\<close>, a RECONNECTED event, a
  node-already-exists create callback, and \<^verbatim>\<open>Close\<close>.  \<open>sequential_worker\<close> is a Started
  manager of a sequential mode with an assigned path, given by its fields.
\<close>

definition heap0 :: heap where
  "heap0 = \<lparr>bufs = (\<lambda>a. [])(0 := [104, 111, 115, 116, 45, 97]), nxt = 1\<rparr>"

definition heap1 :: heap where
  "heap1 = fst (NewPersistentNode heap0 [] EPHEMERAL False ''/locks/worker'' (Some 0))"

definition heap2 :: heap where
  "heap2 = heap1\<lparr>bufs := (bufs heap1)(2 := [104, 111, 115, 116, 45, 98]), nxt := 3\<rparr>"

definition worker0 :: PersistentNode where
  "worker0 = snd (NewPersistentNode heap0 [] EPHEMERAL False ''/locks/worker'' (Some 0))"

definition worker_started :: PersistentNode where
  "worker_started = fst (Start worker0)"

definition worker_closed :: PersistentNode where
  "worker_closed = fst (Close worker_started None)"

definition worker_reconnected :: PersistentNode where
  "worker_reconnected = connectionStateListener worker_started RECONNECTED"

definition worker_late :: PersistentNode where
  "worker_late = fst (Close worker_reconnected None)"

definition named_worker :: PersistentNode where
  "named_worker = \<lparr>client = [AddListener,
       CreateCall True EPHEMERAL (InBackgroundWithCallback BackgroundCallback)
         ''/locks/worker'' (Some 1),
       CheckExistsCall True (InBackgroundWithCallback CheckExistsCallback) ''/locks/worker'',
       SetDataCall (InBackgroundWithCallback SetDataCallback) ''/locks/worker'' (Some 1)],
     mode = EPHEMERAL, useProtection = False, basePath = ''/locks/worker'', data = Some 1,
     state = Started, authFailure = False, nodePath = ''/locks/worker'', wg = 1\<rparr>"

definition sequential_worker :: PersistentNode where
  "sequential_worker = \<lparr>client = [AddListener,
       CreateCall True EPHEMERAL_SEQUENTIAL (InBackgroundWithCallback BackgroundCallback)
         ''/locks/worker-'' (Some 1),
       CheckExistsCall True (InBackgroundWithCallback CheckExistsCallback)
         ''/locks/worker-0000000007''],
     mode = EPHEMERAL_SEQUENTIAL, useProtection = False, basePath = ''/locks/worker-'',
     data = Some 1, state = Started, authFailure = False,
     nodePath = ''/locks/worker-0000000007'', wg = 0\<rparr>"

text \<open>
  The events of a create of \<^verbatim>\<open>/locks/worker\<close> that succeeded (nil error, the name of the
  created node), that found the node present, and that was refused.
\<close>

definition success_event :: CuratorEvent where
  "success_event = \<lparr>Err = None, Path = ''/locks/worker'', Name = ''worker'',
     StatOwner = None\<rparr>"

definition exists_event :: CuratorEvent where
  "exists_event = \<lparr>Err = Some ErrNodeExists, Path = ''/locks/worker'', Name = [],
     StatOwner = None\<rparr>"

definition no_auth_event :: CuratorEvent where
  "no_auth_event = \<lparr>Err = Some ErrNoAuth, Path = ''/locks/worker'', Name = [],
     StatOwner = None\<rparr>"

text \<open>Whether a call is a create, whatever its options.\<close>

definition is_create :: "'d call \<Rightarrow> bool" where
  "is_create c = (case c of CreateCall parents m bg path d \<Rightarrow> True | _ \<Rightarrow> False)"

section \<open>Basic facts\<close>

lemma heap1_eq:
  "heap1 = \<lparr>bufs = (\<lambda>a. [])(0 := [104, 111, 115, 116, 45, 97], 1 := [104, 111, 115, 116, 45, 97]),
             nxt = 2\<rparr>"
  by (simp add: heap1_def NewPersistentNode_def make_copy_def heap0_def contents_def)

lemma worker0_eq:
  "worker0 = \<lparr>client = [], mode = EPHEMERAL, useProtection = False, basePath = ''/locks/worker'',
     data = Some 1, state = Latent, authFailure = False, nodePath = [], wg = 1\<rparr>"
  by (simp add: worker0_def NewPersistentNode_def make_copy_def heap0_def)

lemma worker_started_eq:
  "worker_started = \<lparr>client = [AddListener], mode = EPHEMERAL, useProtection = False,
     basePath = ''/locks/worker'', data = Some 1, state = Started, authFailure = False,
     nodePath = [], wg = 1\<rparr>"
  by (simp add: worker_started_def worker0_eq Start_def createNode_def isActive_def)

lemma worker_closed_eq:
  "worker_closed = \<lparr>client = [AddListener, RemoveListener], mode = EPHEMERAL,
     useProtection = False, basePath = ''/locks/worker'', data = Some 1, state = Closed,
     authFailure = False, nodePath = [], wg = 1\<rparr>"
  by (simp add: worker_closed_def worker_started_eq Close_def deleteNode_def)

lemma worker_reconnected_eq:
  "worker_reconnected = \<lparr>client = [AddListener,
       CreateCall True EPHEMERAL (InBackgroundWithCallback BackgroundCallback)
         ''/locks/worker'' (Some 1)],
     mode = EPHEMERAL, useProtection = False, basePath = ''/locks/worker'', data = Some 1,
     state = Started, authFailure = False, nodePath = [], wg = 1\<rparr>"
  by (simp add: worker_reconnected_def worker_started_eq connectionStateListener_def
      createNode_def isActive_def getCreateMode_def)

lemma worker_late_eq:
  "worker_late = \<lparr>client = [AddListener,
       CreateCall True EPHEMERAL (InBackgroundWithCallback BackgroundCallback)
         ''/locks/worker'' (Some 1), RemoveListener],
     mode = EPHEMERAL, useProtection = False, basePath = ''/locks/worker'', data = Some 1,
     state = Closed, authFailure = False, nodePath = [], wg = 1\<rparr>"
  by (simp add: worker_late_def worker_reconnected_eq Close_def deleteNode_def)

lemma named_worker_reached:
  "backgroundCallback worker_reconnected exists_event = Inr named_worker"
  by (simp add: worker_reconnected_eq exists_event_def named_worker_def backgroundCallback_def
      processBackgroundCallback_def watchNode_def isActive_def)

lemma createNode_inactive: "state p \<noteq> Started \<Longrightarrow> createNode p = p"
  by (simp add: createNode_def isActive_def)

lemma createNode_started:
  "state p = Started \<Longrightarrow>
   createNode p = p\<lparr>client := client p @
     [CreateCall True (getCreateMode p (nodePath p \<noteq> []))
        (InBackgroundWithCallback BackgroundCallback)
        (if nodePath p \<noteq> [] \<and> \<not> useProtection p then nodePath p else basePath p) (data p)]\<rparr>"
  by (simp add: createNode_def isActive_def Let_def)

lemma Start_not_started:
  "state p \<noteq> Started \<Longrightarrow>
   Start p = (p\<lparr>client := client p @ [AddListener], state := Started\<rparr>, None)"
  by (simp add: Start_def createNode_def isActive_def)

lemma watchNode_keeps [simp]: "wg (watchNode p) = wg p" "state (watchNode p) = state p"
  by (simp_all add: watchNode_def)

lemma backgroundCallback_no_auth:
  "state p = Started \<Longrightarrow> Err ev = Some ErrNoAuth \<Longrightarrow>
   backgroundCallback p ev = Inr (p\<lparr>authFailure := True\<rparr>)"
  by (simp add: backgroundCallback_def processBackgroundCallback_def)

lemma createNode_keeps:
  "state p = Started \<Longrightarrow> wg (createNode p) = wg p \<and> state (createNode p) = Started"
  by (simp add: createNode_def isActive_def Let_def)

lemma backgroundCallback_nil_error:
  "state p = Started \<Longrightarrow> Err ev = None \<Longrightarrow> backgroundCallback p ev = Inr (createNode p)"
  by (simp add: backgroundCallback_def processBackgroundCallback_def)

lemma setDataCallback_nil_error:
  "Err ev = None \<Longrightarrow> setDataCallback p ev = Inr p"
  by (simp add: setDataCallback_def)

subsection \<open>Where the done signal is given\<close>

text \<open>
  \<^verbatim>\<open>wg.Done()\<close> is called in two places, both reached only by an event whose error is the
  value \<open>ErrNothing\<close>.
\<close>

lemma backgroundCallback_created:
  "state p = Started \<Longrightarrow> Err ev = Some ErrNothing \<Longrightarrow> Name ev \<noteq> [] \<Longrightarrow>
   backgroundCallback p ev = wg_Done (watchNode (p\<lparr>authFailure := False, nodePath := Name ev\<rparr>))"
  by (simp add: backgroundCallback_def processBackgroundCallback_def)

lemma setDataCallback_done:
  "Err ev = Some ErrNothing \<Longrightarrow> setDataCallback p ev = wg_Done p"
  by (simp add: setDataCallback_def)

lemma wg_Done_positive: "wg p = 1 \<Longrightarrow> wg_Done p = Inr (p\<lparr>wg := 0\<rparr>)"
  by (simp add: wg_Done_def)

lemma wg_Done_zero: "wg p = 0 \<Longrightarrow> wg_Done p = Inl NegativeWaitGroupCounter"
  by (simp add: wg_Done_def)

subsection \<open>Copies are fresh\<close>

lemma make_copy_fresh:
  assumes "allocated h d" and "make_copy h d = (h1, c)"
  shows "c = Some (nxt h)" and "c \<noteq> d" and "contents h1 c = contents h d"
  using assms by (auto simp add: make_copy_def allocated_def contents_def split: option.splits)

lemma store_other_buffer:
  assumes "store_byte h s i b = Some h2" and "c \<noteq> s"
  shows "contents h2 c = contents h c"
  using assms by (auto simp add: store_byte_def contents_def split: option.splits if_splits)

lemma NewPersistentNode_data:
  "NewPersistentNode h cl m prot bp d = (h1, p) \<Longrightarrow> make_copy h d = (h1, data p)"
  by (auto simp add: NewPersistentNode_def split: prod.splits)

lemma SetData_success_data:
  "SetData h q d res = (h1, q', None) \<Longrightarrow> make_copy h d = (h1, data q')"
  by (auto simp add: SetData_def Let_def split: prod.splits if_splits option.splits)

subsection \<open>The two outcomes of the marshalling in CreatePersistentNode\<close>

lemma CreatePersistentNode_Inr:
  "CreatePersistentNode z path (Inr b) (p, cerr) werr
     = (z @ [CreateCall True EPHEMERAL Foreground path b, CheckExistsCall True Foreground p],
        None, werr)"
  by (cases werr) (simp_all add: CreatePersistentNode_def)

lemma CreatePersistentNode_Inl:
  "CreatePersistentNode z path (Inl e) cr werr = (z, None, Some e)"
  by (simp add: CreatePersistentNode_def)

section \<open>Start and Close\<close>

text \<open>
  C1.  The specification states that a successful \<^verbatim>\<open>Start\<close> of a Latent manager registers the
  listener, issues the first create and sets the state to Started.  The code calls
  \<open>createNode\<close> while the state is still Latent, and \<open>createNode\<close> returns at once unless
  the state is Started: \<^verbatim>\<open>Start\<close> returns nil with the listener registered and the state
  Started, and the creates issued against the client are those issued before.
\<close>

theorem Start_latent_issues_no_create:
  assumes "state p = Latent"
  shows "Start p = (p\<lparr>client := client p @ [AddListener], state := Started\<rparr>, None)
       \<and> filter is_create (client (fst (Start p))) = filter is_create (client p)"
  using assms by (simp add: Start_not_started is_create_def)

theorem Start_latent_issues_no_create_witness:
  "state worker0 = Latent
   \<and> Start worker0 = (worker0\<lparr>client := [AddListener], state := Started\<rparr>, None)
   \<and> filter is_create (client (fst (Start worker0))) = []"
  using Start_latent_issues_no_create [of worker0] by (simp add: worker0_eq is_create_def)

text \<open>
  C3.  The specification states that the state never moves back and that \<^verbatim>\<open>Start\<close> fails on a Started
  or a Closed manager.  The guard of \<^verbatim>\<open>Start\<close> tests only for Started, so on a Closed
  manager \<^verbatim>\<open>Start\<close> returns nil and the state goes from Closed back to Started.
\<close>

theorem Start_closed_restarts:
  assumes "state p = Closed"
  shows "snd (Start p) = None \<and> state (fst (Start p)) = Started"
  using assms by (simp add: Start_not_started)

theorem Start_closed_restarts_witness:
  "state (fst (Close (fst (Start worker0)) None)) = Closed
   \<and> snd (Start (fst (Close (fst (Start worker0)) None))) = None
   \<and> state (fst (Start (fst (Close (fst (Start worker0)) None)))) = Started"
  using Start_closed_restarts [of "fst (Close (fst (Start worker0)) None)"]
  by (simp add: worker_closed_eq [unfolded worker_closed_def worker_started_def])

text \<open>
  C4.  The specification states that a create callback delivered while the manager is not
  Started deletes the node when the event shows that it exists: node-already-exists, or a
  successful creation.  The closed-state branch recognises a successful creation by
  comparing the event's error with \<open>ErrNothing\<close>, and the event of a successful creation
  carries a nil error: for it the path stays empty and the callback issues nothing, so
  the created node is left behind.  The node-already-exists event does issue the
  background delete, with deletion of children, of the event's path.
\<close>

theorem late_success_callback_issues_no_delete:
  assumes "state p \<noteq> Started"
  shows "(Err ev = None \<longrightarrow> backgroundCallback p ev = Inr p)
       \<and> (Err ev = Some ErrNodeExists \<and> Path ev \<noteq> [] \<longrightarrow>
            backgroundCallback p ev
              = Inr (p\<lparr>client := client p @ [DeleteCall True InBackground (Path ev)]\<rparr>))"
  using assms by (simp add: backgroundCallback_def processBackgroundCallbackClosedState_def)

theorem late_success_callback_issues_no_delete_witness:
  "state worker_late \<noteq> Started
   \<and> Err success_event = None \<and> Name success_event = ''worker''
   \<and> backgroundCallback worker_late success_event = Inr worker_late
   \<and> Err exists_event = Some ErrNodeExists \<and> Path exists_event = ''/locks/worker''
   \<and> backgroundCallback worker_late exists_event
       = Inr (worker_late\<lparr>client := client worker_late @
                [DeleteCall True InBackground ''/locks/worker'']\<rparr>)"
proof -
  have a: "state worker_late \<noteq> Started"
    by (simp add: worker_late_eq)
  have b: "Err success_event = None" "Name success_event = ''worker''"
    by (simp_all add: success_event_def)
  have c: "Err exists_event = Some ErrNodeExists" "Path exists_event = ''/locks/worker''"
    by (simp_all add: exists_event_def)
  show ?thesis
    using a b c late_success_callback_issues_no_delete [OF a, of success_event]
      late_success_callback_issues_no_delete [OF a, of exists_event]
    by simp
qed

section \<open>The create protocol\<close>

text \<open>
  C5.  On a Started manager whose \<open>nodePath\<close> is assigned, \<open>createNode\<close> issues exactly
  one create: with mode EPHEMERAL for EPHEMERAL_SEQUENTIAL, PERSISTENT for
  PERSISTENT_SEQUENTIAL and the configured mode otherwise, at \<open>nodePath\<close> when
  \<open>useProtection\<close> is false and at \<open>basePath\<close> when it is true.
\<close>

theorem retry_create_mode_and_path:
  assumes "state p = Started" and "nodePath p \<noteq> []"
  shows "\<exists>m path. createNode p = p\<lparr>client := client p @
            [CreateCall True m (InBackgroundWithCallback BackgroundCallback) path (data p)]\<rparr>
         \<and> (mode p = EPHEMERAL_SEQUENTIAL \<longrightarrow> m = EPHEMERAL)
         \<and> (mode p = PERSISTENT_SEQUENTIAL \<longrightarrow> m = PERSISTENT)
         \<and> (mode p = EPHEMERAL \<or> mode p = PERSISTENT \<longrightarrow> m = mode p)
         \<and> (\<not> useProtection p \<longrightarrow> path = nodePath p)
         \<and> (useProtection p \<longrightarrow> path = basePath p)"
  using assms by (cases "mode p") (simp_all add: createNode_started getCreateMode_def)

theorem retry_create_mode_and_path_witness:
  "state sequential_worker = Started \<and> nodePath sequential_worker \<noteq> []
   \<and> createNode sequential_worker = sequential_worker\<lparr>client := client sequential_worker @
        [CreateCall True EPHEMERAL (InBackgroundWithCallback BackgroundCallback)
          ''/locks/worker-0000000007'' (Some 1)]\<rparr>"
proof -
  have a: "state sequential_worker = Started"
    by (simp add: sequential_worker_def)
  have b: "nodePath sequential_worker \<noteq> []"
    by (simp add: sequential_worker_def)
  have c: "mode sequential_worker = EPHEMERAL_SEQUENTIAL" "\<not> useProtection sequential_worker"
    "nodePath sequential_worker = ''/locks/worker-0000000007''" "data sequential_worker = Some 1"
    by (simp_all add: sequential_worker_def)
  show ?thesis
    using a b c retry_create_mode_and_path [OF a b] by auto
qed

text \<open>
  C2.  The specification states that after a NO_AUTH create callback no create is issued again.  The
  flag \<open>authFailure\<close> is read by \<open>IsAuthFailure\<close> only; \<open>createNode\<close> does not test it.  In
  the run below the manager is started, a RECONNECTED event issues a create, its callback
  reports NO_AUTH, and the next RECONNECTED event issues a second create although
  \<open>IsAuthFailure\<close> is true.  A NO_AUTH callback that arrives after \<^verbatim>\<open>Close\<close> takes the
  closed-state branch and does not set the flag.
\<close>

theorem create_after_no_auth_counterexample:
  "backgroundCallback worker_reconnected no_auth_event
     = Inr (worker_reconnected\<lparr>authFailure := True\<rparr>)
   \<and> IsAuthFailure (worker_reconnected\<lparr>authFailure := True\<rparr>)
   \<and> client (connectionStateListener (worker_reconnected\<lparr>authFailure := True\<rparr>) RECONNECTED)
       = client worker_reconnected @
         [CreateCall True EPHEMERAL (InBackgroundWithCallback BackgroundCallback)
            ''/locks/worker'' (Some 1)]
   \<and> backgroundCallback worker_late no_auth_event = Inr worker_late
   \<and> \<not> IsAuthFailure worker_late"
  by (simp add: worker_reconnected_eq worker_late_eq no_auth_event_def
      backgroundCallback_def processBackgroundCallback_def
      processBackgroundCallbackClosedState_def IsAuthFailure_def connectionStateListener_def
      createNode_started getCreateMode_def)

text \<open>
  C2, as amended.  A create callback delivered to a Started manager with NO_AUTH sets
  \<open>authFailure\<close>, so that \<open>IsAuthFailure\<close> is true, and issues no call to the client (no
  retry create).  The flag does not stop a later trigger: on the resulting manager a
  RECONNECTED event issues a create.
\<close>

theorem no_auth_sets_flag_without_gating:
  assumes "state p = Started" and "Err ev = Some ErrNoAuth"
  shows "\<exists>p'. backgroundCallback p ev = Inr p' \<and> IsAuthFailure p' \<and> client p' = client p
           \<and> state p' = Started
           \<and> (\<exists>c. client (connectionStateListener p' RECONNECTED) = client p' @ [c]
                 \<and> is_create c)"
proof -
  let ?p' = "p\<lparr>authFailure := True\<rparr>"
  have cb: "backgroundCallback p ev = Inr ?p'"
    using assms by (rule backgroundCallback_no_auth)
  have st: "state ?p' = Started"
    using assms(1) by simp
  have cr: "\<exists>c. client (createNode ?p') = client ?p' @ [c] \<and> is_create c"
    by (simp add: createNode_started [OF st] is_create_def)
  have "\<exists>c. client (connectionStateListener ?p' RECONNECTED) = client ?p' @ [c] \<and> is_create c"
    using cr by (simp add: connectionStateListener_def)
  then show ?thesis
    using cb st by (simp add: IsAuthFailure_def)
qed

theorem no_auth_sets_flag_without_gating_witness:
  "state worker_reconnected = Started \<and> Err no_auth_event = Some ErrNoAuth
   \<and> (\<exists>p'. backgroundCallback worker_reconnected no_auth_event = Inr p' \<and> IsAuthFailure p'
         \<and> client p' = client worker_reconnected \<and> state p' = Started
         \<and> (\<exists>c. client (connectionStateListener p' RECONNECTED) = client p' @ [c]
               \<and> is_create c))"
proof -
  have a: "state worker_reconnected = Started"
    by (simp add: worker_reconnected_eq)
  have b: "Err no_auth_event = Some ErrNoAuth"
    by (simp add: no_auth_event_def)
  show ?thesis
    using a b no_auth_sets_flag_without_gating [OF a b] by blast
qed

section \<open>The payload\<close>

text \<open>
  C6.  The specification states that the payload is copied on every external write and read.  The
  constructor and \<^verbatim>\<open>SetData\<close> copy; \<^verbatim>\<open>GetData\<close> returns the stored slice itself.  Below,
  a caller writes one byte through the slice it got from \<^verbatim>\<open>GetData\<close> and the manager's
  payload changes from \<^verbatim>\<open>"host-a"\<close>.
\<close>

theorem GetData_aliases_payload_counterexample:
  "GetData worker0 = data worker0
   \<and> contents heap1 (data worker0) = [104, 111, 115, 116, 45, 97]
   \<and> store_byte heap1 (GetData worker0) 0 0 \<noteq> None
   \<and> contents (the (store_byte heap1 (GetData worker0) 0 0)) (data worker0)
       = [0, 111, 115, 116, 45, 97]"
  by (simp add: GetData_def worker0_eq heap1_eq contents_def store_byte_def)

text \<open>
  C6, as amended.  The slice \<open>d\<close> passed to the constructor or to a successful
  \<^verbatim>\<open>SetData\<close> is copied before it is stored: the stored slice is another slice than \<open>d\<close>,
  it holds the bytes of \<open>d\<close>, and a later write of the caller through \<open>d\<close> leaves the
  stored payload as it was.  \<^verbatim>\<open>GetData\<close> returns the bytes of the stored payload.
\<close>

theorem payload_copied_on_write:
  assumes "allocated h d"
  shows "(NewPersistentNode h cl m prot bp d = (h1, p) \<longrightarrow>
            data p \<noteq> d \<and> contents h1 (data p) = contents h d
            \<and> (store_byte h1 d i b = Some h2 \<longrightarrow> contents h2 (data p) = contents h d))
       \<and> (SetData h q d res = (h1, q', None) \<longrightarrow>
            data q' \<noteq> d \<and> contents h1 (data q') = contents h d
            \<and> (store_byte h1 d i b = Some h2 \<longrightarrow> contents h2 (data q') = contents h d))
       \<and> contents h (GetData q) = contents h (data q)"
proof -
  have copy: "data r \<noteq> d \<and> contents h1 (data r) = contents h d
      \<and> (store_byte h1 d i b = Some h2 \<longrightarrow> contents h2 (data r) = contents h d)"
    if "make_copy h d = (h1, data r)" for r
    using make_copy_fresh [OF assms that] store_other_buffer [of h1 d i b h2 "data r"]
    by auto
  have new: "NewPersistentNode h cl m prot bp d = (h1, p) \<longrightarrow>
            data p \<noteq> d \<and> contents h1 (data p) = contents h d
            \<and> (store_byte h1 d i b = Some h2 \<longrightarrow> contents h2 (data p) = contents h d)"
    using copy [of p] NewPersistentNode_data [of h cl m prot bp d h1 p] by blast
  have set: "SetData h q d res = (h1, q', None) \<longrightarrow>
            data q' \<noteq> d \<and> contents h1 (data q') = contents h d
            \<and> (store_byte h1 d i b = Some h2 \<longrightarrow> contents h2 (data q') = contents h d)"
    using copy [of q'] SetData_success_data [of h q d res h1 q'] by blast
  show ?thesis
    using new set by (simp add: GetData_def)
qed

theorem payload_copied_on_write_witness:
  "allocated heap0 (Some 0)
   \<and> NewPersistentNode heap0 [] EPHEMERAL False ''/locks/worker'' (Some 0) = (heap1, worker0)
   \<and> data worker0 \<noteq> Some 0
   \<and> contents heap1 (data worker0) = [104, 111, 115, 116, 45, 97]
   \<and> store_byte heap1 (Some 0) 0 0
       = Some (heap1\<lparr>bufs := (bufs heap1)(0 := [0, 111, 115, 116, 45, 97])\<rparr>)
   \<and> contents (heap1\<lparr>bufs := (bufs heap1)(0 := [0, 111, 115, 116, 45, 97])\<rparr>) (data worker0)
       = [104, 111, 115, 116, 45, 97]"
proof -
  have a: "allocated heap0 (Some 0)"
    by (simp add: allocated_def heap0_def)
  have n: "NewPersistentNode heap0 [] EPHEMERAL False ''/locks/worker'' (Some 0) = (heap1, worker0)"
    by (simp add: heap1_def worker0_def)
  have s: "store_byte heap1 (Some 0) 0 0
      = Some (heap1\<lparr>bufs := (bufs heap1)(0 := [0, 111, 115, 116, 45, 97])\<rparr>)"
    by (simp add: store_byte_def heap1_eq)
  have c: "contents heap0 (Some 0) = [104, 111, 115, 116, 45, 97]"
    by (simp add: contents_def heap0_def)
  show ?thesis
    using a n s c
      payload_copied_on_write [OF a, of "[]" EPHEMERAL False "''/locks/worker''" heap1 worker0
        0 0 "heap1\<lparr>bufs := (bufs heap1)(0 := [0, 111, 115, 116, 45, 97])\<rparr>"]
    by simp
qed

text \<open>
  C7.  \<^verbatim>\<open>SetData\<close> returns the error "data is empty" for a nil or empty slice, and an
  error for a manager whose \<open>nodePath\<close> is not assigned ("initial create has not been
  processed" when the slice is not empty).  In both cases the store and the manager, the
  log of client calls included, are returned as they were.
\<close>

theorem SetData_rejects_without_effect:
  "(d = None \<or> contents h d = [] \<longrightarrow>
      SetData h p d res = (h, p, Some (Errorf ''data is empty'')))
   \<and> (nodePath p = [] \<longrightarrow>
        (\<exists>e. SetData h p d res = (h, p, Some e)
           \<and> (contents h d \<noteq> [] \<longrightarrow> e = Errorf ''initial create has not been processed'')))"
  by (auto simp add: SetData_def contents_def)

theorem SetData_rejects_without_effect_witness:
  "SetData heap1 worker_started None None
     = (heap1, worker_started, Some (Errorf ''data is empty''))
   \<and> nodePath worker_started = [] \<and> contents heap1 (Some 0) \<noteq> []
   \<and> SetData heap1 worker_started (Some 0) None
       = (heap1, worker_started, Some (Errorf ''initial create has not been processed''))"
proof -
  have a: "nodePath worker_started = []"
    by (simp add: worker_started_eq)
  have b: "contents heap1 (Some 0) \<noteq> []"
    by (simp add: contents_def heap1_eq)
  show ?thesis
    using a b SetData_rejects_without_effect [of None heap1 worker_started None]
      SetData_rejects_without_effect [of "Some 0" heap1 worker_started None]
    by auto
qed

text \<open>
  C8.  After a \<^verbatim>\<open>SetData\<close> of a non-empty slice \<open>x\<close> that returns nil, \<^verbatim>\<open>GetData\<close> returns a
  slice holding the bytes of \<open>x\<close>.  \<^verbatim>\<open>SetData\<close> only issues the remote set-data call; the
  result does not depend on its completion.
\<close>

theorem GetData_after_SetData:
  assumes "contents h x \<noteq> []" and "SetData h p x res = (h', p', None)"
  shows "contents h' (GetData p') = contents h x"
  using assms
  by (auto simp add: SetData_def GetData_def make_copy_def contents_def Let_def
      split: if_splits option.splits)

theorem GetData_after_SetData_witness:
  "contents heap2 (Some 2) \<noteq> []
   \<and> snd (snd (SetData heap2 named_worker (Some 2) None)) = None
   \<and> contents (fst (SetData heap2 named_worker (Some 2) None))
        (GetData (fst (snd (SetData heap2 named_worker (Some 2) None))))
       = [104, 111, 115, 116, 45, 98]"
proof -
  have a: "contents heap2 (Some 2) = [104, 111, 115, 116, 45, 98]"
    by (simp add: contents_def heap2_def)
  have b: "snd (snd (SetData heap2 named_worker (Some 2) None)) = None"
    by (simp add: SetData_def a make_copy_def named_worker_def isActive_def)
  have c: "SetData heap2 named_worker (Some 2) None
      = (fst (SetData heap2 named_worker (Some 2) None),
         fst (snd (SetData heap2 named_worker (Some 2) None)), None)"
    using b by (metis prod.collapse)
  have d: "contents heap2 (Some 2) \<noteq> []"
    by (simp add: a)
  show ?thesis
    using GetData_after_SetData [OF d c] a b by simp
qed

section \<open>The first-creation counter\<close>

text \<open>
  C10.  The specification states that the done signal is delivered on every successful
  create callback and on every successful set-data callback, so that the second one
  panics on the negative counter.  Both calls of \<^verbatim>\<open>wg.Done()\<close> stand behind the comparison
  of the event's error with \<open>ErrNothing\<close>, and a successful callback carries a nil error.
  On a Started manager the set-data callback then does nothing, and the create callback
  finds no path and issues the create again; the counter is what it was, after any
  number of successful callbacks, and nothing panics.
\<close>

theorem success_callback_never_signals_done:
  assumes "state p = Started" and "Err ev = None"
  shows "setDataCallback p ev = Inr p
       \<and> backgroundCallback p ev = Inr (createNode p)
       \<and> wg (createNode p) = wg p \<and> state (createNode p) = Started"
  using assms
  by (simp add: setDataCallback_nil_error backgroundCallback_nil_error createNode_keeps)

theorem success_callback_never_signals_done_witness:
  "state worker_reconnected = Started \<and> Err success_event = None
   \<and> wg worker_reconnected = 1
   \<and> setDataCallback worker_reconnected success_event = Inr worker_reconnected
   \<and> backgroundCallback worker_reconnected success_event = Inr (createNode worker_reconnected)
   \<and> backgroundCallback (createNode worker_reconnected) success_event
       = Inr (createNode (createNode worker_reconnected))
   \<and> wg (createNode (createNode worker_reconnected)) = 1"
proof -
  have a: "state worker_reconnected = Started" and w: "wg worker_reconnected = 1"
    by (simp_all add: worker_reconnected_eq)
  have b: "Err success_event = None"
    by (simp add: success_event_def)
  have first: "backgroundCallback worker_reconnected success_event
        = Inr (createNode worker_reconnected)
      \<and> setDataCallback worker_reconnected success_event = Inr worker_reconnected
      \<and> wg (createNode worker_reconnected) = 1
      \<and> state (createNode worker_reconnected) = Started"
    using success_callback_never_signals_done [OF a b] w by simp
  then have a2: "state (createNode worker_reconnected) = Started"
    by simp
  show ?thesis
    using a b w first success_callback_never_signals_done [OF a2 b] by simp
qed

section \<open>CreatePersistentNode of the path utility layer\<close>

text \<open>
  C9.  When the object marshals, \<^verbatim>\<open>CreatePersistentNode\<close> issues a create with mode
  EPHEMERAL and then the watched existence check on the path the create returned,
  whatever error the create returned: the test \<^verbatim>\<open>err != err\<close> never holds, so the result
  is the same as with a create that returned no error.  The returned value is nil on
  every path, and the result is (nil, nil) when the existence check returns no error.
\<close>

theorem CreatePersistentNode_ignores_create_error:
  "CreatePersistentNode z path (Inr b) (p, cerr) werr
     = (z @ [CreateCall True EPHEMERAL Foreground path b, CheckExistsCall True Foreground p],
        None, werr)
   \<and> CreatePersistentNode z path (Inl e) cr werr = (z, None, Some e)
   \<and> CreatePersistentNode z path m (p, cerr) werr = CreatePersistentNode z path m (p, None) werr
   \<and> snd (CreatePersistentNode z path (Inr b) (p, cerr) None) = (None, None)
   \<and> fst (snd (CreatePersistentNode z path m cr werr)) = None"
  by (cases m; cases cr) (simp_all add: CreatePersistentNode_Inr CreatePersistentNode_Inl)

end
